theory Spec2Isabelle
  imports Complex_Main "HOL-Library.AList"
begin

section \<open>The mock server's request handlers (proxy\_mock/any\_catcher.py)\<close>

text \<open>
  The module \<^verbatim>\<open>any_catcher.py\<close> holds the Flask application object and its request
  handlers. The registry of mocks lives in \<^verbatim>\<open>proxy_mock.mock_service\<close>, the schema in
  \<^verbatim>\<open>proxy_mock.models\<close>, the decorators in \<^verbatim>\<open>proxy_mock.utils\<close>: the handlers
  only call them. Those collaborators are parameters of the model (the record
  \<open>collaborators\<close> below), so that a theorem about a handler holds whatever they compute.
  Logging has no effect on any value the handlers return or store and is left out.
\<close>

subsection \<open>Python values\<close>

text \<open>Python \<^verbatim>\<open>bytes\<close> and \<^verbatim>\<open>str\<close> are both lists of characters here; the
  constructors that hold them keep the two apart.\<close>

type_synonym bytes = "char list"

datatype pyval =
    PNone
  | PBool bool
  | PInt int
  | PStr string
  | PBytes bytes
  | PList "pyval list"
  | PDict "(string \<times> pyval) list"

text \<open>An exception that leaves a function. \<^verbatim>\<open>ValidationError\<close> is the one the handlers
  catch; it carries the text of \<^verbatim>\<open>err.json()\<close>. Any other exception is named by its
  class.\<close>

datatype exn = ValidationError string | PyError string

text \<open>A Python \<^verbatim>\<open>float\<close>: a finite number, taken as the real number it stands for, an
  infinity, or not a number.\<close>

datatype pyfloat = Finite real | PosInf | NegInf | NaN

text \<open>Whether a value holds \<^verbatim>\<open>bytes\<close> anywhere. The JSON encoder that \<^verbatim>\<open>jsonify\<close>
  uses raises \<^verbatim>\<open>TypeError\<close> on such a value.\<close>

primrec has_bytes :: "pyval \<Rightarrow> bool" where
  "has_bytes PNone = False"
| "has_bytes (PBool b) = False"
| "has_bytes (PInt n) = False"
| "has_bytes (PStr s) = False"
| "has_bytes (PBytes b) = True"
| "has_bytes (PList xs) = list_ex id (map has_bytes xs)"
| "has_bytes (PDict kvs) = list_ex snd (map (map_prod id has_bytes) kvs)"

text \<open>Modelled from the spec: the type of the field \<^verbatim>\<open>body\<close> of
  \<^verbatim>\<open>ConfigureMockRequestSchema\<close>, which is not among the sources. The spec's data model
  gives a body that is absent, textual or binary: \<^verbatim>\<open>None\<close>, a \<^verbatim>\<open>str\<close> or
  \<^verbatim>\<open>bytes\<close>.\<close>

datatype body = NoBody | Text string | Bytes bytes

subsection \<open>\<^verbatim>\<open>str()\<close> of a body\<close>

definition hexdigit :: "nat \<Rightarrow> char" where
  "hexdigit n = ''0123456789abcdef'' ! (n mod 16)"

text \<open>One byte inside the \<^verbatim>\<open>repr\<close> of a bytes object, \<open>q\<close> being the quote in use.\<close>

definition repr_byte :: "char \<Rightarrow> char \<Rightarrow> string" where
  "repr_byte q c =
     (if c = q \<or> c = CHR 0x5C then [CHR 0x5C, c]
      else if c = CHR 0x09 then [CHR 0x5C, CHR ''t'']
      else if c = CHR 0x0A then [CHR 0x5C, CHR ''n'']
      else if c = CHR 0x0D then [CHR 0x5C, CHR ''r'']
      else if (of_char c :: nat) < 32 \<or> (of_char c :: nat) \<ge> 127
        then [CHR 0x5C, CHR ''x'', hexdigit ((of_char c :: nat) div 16), hexdigit (of_char c)]
      else [c])"

text \<open>\<^verbatim>\<open>repr(b)\<close> for bytes: \<^verbatim>\<open>b'...'\<close>, with double quotes when the bytes hold a
  single quote and no double quote.\<close>

definition bytes_repr :: "bytes \<Rightarrow> string" where
  "bytes_repr bs =
     (let q = (if CHR 0x27 \<in> set bs \<and> CHR 0x22 \<notin> set bs then CHR 0x22 else CHR 0x27)
      in CHR ''b'' # q # concat (map (repr_byte q) bs) @ [q])"

definition py_str :: "body \<Rightarrow> string" where
  "py_str b = (case b of NoBody \<Rightarrow> ''None'' | Text s \<Rightarrow> s | Bytes bs \<Rightarrow> bytes_repr bs)"

subsection \<open>Mock dictionaries on the heap\<close>

text \<open>
  A stored mock is a dictionary with the keys \<^verbatim>\<open>proxy_host\<close>, \<^verbatim>\<open>timeout\<close>,
  \<^verbatim>\<open>mock_data\<close> and \<^verbatim>\<open>extra_info\<close>; under \<^verbatim>\<open>mock_data\<close> is a second dictionary
  with the keys \<^verbatim>\<open>body\<close>, \<^verbatim>\<open>status_code\<close> and \<^verbatim>\<open>headers\<close> (the keys the handlers
  read). Dictionaries are mutable and shared by reference, and one handler assigns to a
  key of a copy, so both dictionaries are objects of a heap: a list of objects, an address
  being an index. The outer dictionary holds the address of the inner one; read as a value
  it holds the inner dictionary itself. A timeout is a float: the handler tests it for
  truth and passes it to \<^verbatim>\<open>time.sleep\<close>.
\<close>

record mock_body =
  body :: body
  status_code :: int
  headers :: "(string \<times> string) list"

record 'a mock_dict =
  proxy_host :: "string option"
  timeout :: "pyfloat option"
  mock_data :: 'a
  extra_info :: pyval

datatype obj = Outer "nat mock_dict" | Inner mock_body

type_synonym heap = "obj list"

definition lookup :: "heap \<Rightarrow> nat \<Rightarrow> obj option" where
  "lookup h a = (if a < length h then Some (h ! a) else None)"

text \<open>The mock at an address, read through both dictionaries.\<close>

definition read_mock :: "heap \<Rightarrow> nat \<Rightarrow> mock_body mock_dict option" where
  "read_mock h a =
     (case lookup h a of
        Some (Outer m) \<Rightarrow>
          (case lookup h (mock_data m) of
             Some (Inner b) \<Rightarrow>
               Some \<lparr>proxy_host = proxy_host m, timeout = timeout m, mock_data = b,
                     extra_info = extra_info m\<rparr>
           | _ \<Rightarrow> None)
      | _ \<Rightarrow> None)"

text \<open>\<^verbatim>\<open>copy.deepcopy\<close> of a mock: both dictionaries are allocated anew, at the end of
  the heap; the result is the address of the new outer dictionary.\<close>

definition deepcopy :: "heap \<Rightarrow> nat \<Rightarrow> (nat \<times> heap) option" where
  "deepcopy h a =
     (case lookup h a of
        Some (Outer m) \<Rightarrow>
          (case lookup h (mock_data m) of
             Some (Inner b) \<Rightarrow>
               Some (Suc (length h), h @ [Inner b, Outer (m\<lparr>mock_data := length h\<rparr>)])
           | _ \<Rightarrow> None)
      | _ \<Rightarrow> None)"

text \<open>The assignment \<^verbatim>\<open>d["mock_data"]["body"] = v\<close> for the dictionary \<open>d\<close> at \<open>a\<close>.\<close>

definition set_body :: "heap \<Rightarrow> nat \<Rightarrow> body \<Rightarrow> heap option" where
  "set_body h a v =
     (case lookup h a of
        Some (Outer m) \<Rightarrow>
          (case lookup h (mock_data m) of
             Some (Inner b) \<Rightarrow> Some (h[mock_data m := Inner (b\<lparr>body := v\<rparr>)])
           | _ \<Rightarrow> None)
      | _ \<Rightarrow> None)"

subsection \<open>Requests, responses and the application's state\<close>

text \<open>What the handlers read of \<^verbatim>\<open>flask.request\<close>: the path, the query arguments, the
  raw body, and the body parsed as JSON (which may raise).\<close>

record request =
  req_path :: string
  req_args :: "(string \<times> string) list"
  req_data :: bytes
  req_json :: "exn + pyval"

text \<open>The dictionary the decorator \<^verbatim>\<open>get_request_data\<close> hands to a handler. Keys keep
  their order of insertion.\<close>

type_synonym request_data = "(string \<times> pyval) list"

text \<open>What \<^verbatim>\<open>proxy_request_to_host\<close> returns: the fields the handler reads.\<close>

record proxy_response =
  content :: bytes
  pr_status_code :: int
  pr_headers :: "(string \<times> string) list"

text \<open>Modelled from the spec: the fields of \<^verbatim>\<open>ConfigureMockRequestSchema\<close>, which is
  not among the sources, taken to be those of the spec's MockEntry. A value of this type is
  the validated payload, \<^verbatim>\<open>model_validate(...).model_dump()\<close>, which the handlers pass
  on as the keyword arguments of \<^verbatim>\<open>create_response\<close>; they read \<^verbatim>\<open>path\<close> only.\<close>

record validated =
  v_path :: string
  v_proxy_host :: "string option"
  v_timeout :: "pyfloat option"
  v_body :: body
  v_status_code :: int
  v_headers :: "(string \<times> string) list"
  v_extra_info :: pyval

text \<open>The \<^verbatim>\<open>data\<close> of a storage answer: the whole dictionary that
  \<^verbatim>\<open>return_storage\<close> gave (mock dictionaries under their keys, read as values), one
  value of it, or \<^verbatim>\<open>None\<close>.\<close>

datatype storage_data =
    Whole "(string \<times> mock_body mock_dict) list"
  | Item "mock_body mock_dict"
  | Null

text \<open>The dictionaries the handlers pass to \<^verbatim>\<open>jsonify\<close>, one constructor for each
  shape:
  \<^item> \<open>Version s v\<close> is \<^verbatim>\<open>{"success": s, "version": v}\<close>;
  \<^item> \<open>Invalid e\<close> is \<^verbatim>\<open>{"success": False, "error": json.loads(e)}\<close>;
  \<^item> \<open>Configured p m\<close> is \<^verbatim>\<open>{"success": True, "path": p, "data": m}\<close>;
  \<^item> \<open>MockNotFound p\<close> is \<^verbatim>\<open>{"error": msg}\<close>, the message naming the path \<open>p\<close>;
  \<^item> \<open>NotFound\<close> is \<^verbatim>\<open>{"error": "Not found"}\<close>;
  \<^item> \<open>Params ps\<close> is \<^verbatim>\<open>{"success": True, "data": ps}\<close>;
  \<^item> \<open>Storage s d\<close> is \<^verbatim>\<open>{"success": s, "data": d}\<close>.\<close>

datatype payload =
    Version bool string
  | Invalid string
  | Configured string "mock_body mock_dict"
  | MockNotFound string
  | NotFound
  | Params "request_data list"
  | Storage bool storage_data

text \<open>What a view function returns: \<^verbatim>\<open>jsonify(payload), code\<close> (once
  \<^verbatim>\<open>jsonify\<close> has encoded the payload); an explicit
  \<^verbatim>\<open>Response(response, status, headers, content_type)\<close>; or the plain tuple
  \<^verbatim>\<open>(body, status, headers)\<close>.\<close>

datatype answer =
    Jsonify payload int
  | Response body int "(string \<times> string) list" "string option"
  | Tuple body int "(string \<times> string) list"

text \<open>What a handler does to the world outside the process.\<close>

datatype effect = Slept real | Proxied string

text \<open>The state the handlers share: \<^verbatim>\<open>app.params_storage\<close>, the heap of mock
  dictionaries, the state of the module \<^verbatim>\<open>mock_service\<close> (of a type \<open>'s\<close> the handlers
  never look into), and the effects so far, oldest first.\<close>

record 's state =
  params_storage :: "request_data list"
  heap :: heap
  registry :: 's
  effects :: "effect list"

text \<open>The functions and constants that \<^verbatim>\<open>any_catcher.py\<close> imports. A function that
  changes the registry takes the state and returns the new one; \<^verbatim>\<open>create_response\<close>
  and \<^verbatim>\<open>find_response\<close> return a mock dictionary by its address.\<close>

record 's collaborators =
  version :: string
  MOCK_PARAMS_STORAGE :: "request_data list"
  pickle_loads :: "bytes \<Rightarrow> exn + pyval"
  model_validate :: "pyval \<Rightarrow> exn + validated"
  create_response :: "validated \<Rightarrow> 's state \<Rightarrow> nat \<times> 's state"
  find_response :: "'s state \<Rightarrow> string \<Rightarrow> nat option"
  path_finder :: "'s state \<Rightarrow> string \<Rightarrow> string option"
  delete_mock :: "string \<Rightarrow> 's state \<Rightarrow> bool \<times> 's state"
  cleanup_storage :: "'s state \<Rightarrow> bool \<times> 's state"
  return_storage :: "'s state \<Rightarrow> (string \<times> mock_body mock_dict) list"
  proxy_request_to_host :: "request \<Rightarrow> string \<Rightarrow> exn + proxy_response"

text \<open>Python's truth test of an optional string and of an optional float, as
  \<^verbatim>\<open>if x := e\<close> uses it: the value when it counts as true. \<^verbatim>\<open>None\<close>, the empty
  string and zero count as false; an infinity and not-a-number count as true.\<close>

definition truthy_str :: "string option \<Rightarrow> string option" where
  "truthy_str x = (case x of None \<Rightarrow> None | Some s \<Rightarrow> if s = [] then None else Some s)"

definition truthy_num :: "pyfloat option \<Rightarrow> pyfloat option" where
  "truthy_num x = (case x of None \<Rightarrow> None | Some f \<Rightarrow> if f = Finite 0 then None else Some f)"

text \<open>\<^verbatim>\<open>time.sleep\<close>. The length is first turned into a signed 64-bit count of
  nanoseconds, rounded away from zero: not-a-number raises \<^verbatim>\<open>ValueError\<close>, and a
  length whose count does not fit (an infinity, or a finite length beyond about
  \<open>9.22 * 10^9\<close> seconds either way) raises \<^verbatim>\<open>OverflowError\<close>. Then a negative
  length raises \<^verbatim>\<open>ValueError\<close>. Otherwise the call sleeps for that long. (Rounded
  away from zero, the count of a real \<open>t\<close> fits exactly when
  \<open>- 2^63 \<le> t * 10^9 \<le> 2^63 - 1\<close>.)\<close>

definition sleep :: "pyfloat \<Rightarrow> 's state \<Rightarrow> exn + 's state" where
  "sleep secs st =
     (case secs of
        NaN \<Rightarrow> Inl (PyError ''ValueError'')
      | PosInf \<Rightarrow> Inl (PyError ''OverflowError'')
      | NegInf \<Rightarrow> Inl (PyError ''OverflowError'')
      | Finite t \<Rightarrow>
          if t * 10 ^ 9 < - (2 ^ 63) \<or> 2 ^ 63 - 1 < t * 10 ^ 9
          then Inl (PyError ''OverflowError'')
          else if t < 0 then Inl (PyError ''ValueError'')
          else Inr (st\<lparr>effects := effects st @ [Slept t]\<rparr>))"

text \<open>\<^verbatim>\<open>flask.jsonify\<close> with a status code. Its encoder raises \<^verbatim>\<open>TypeError\<close> on
  \<^verbatim>\<open>bytes\<close>, which a payload can hold as the body or in the \<^verbatim>\<open>extra_info\<close> of a
  mock, or in the recorded data of a request.\<close>

definition mock_has_bytes :: "mock_body mock_dict \<Rightarrow> bool" where
  "mock_has_bytes m =
     ((case body (mock_data m) of Bytes b \<Rightarrow> True | _ \<Rightarrow> False) \<or> has_bytes (extra_info m))"

definition data_has_bytes :: "storage_data \<Rightarrow> bool" where
  "data_has_bytes d =
     (case d of
        Whole kvs \<Rightarrow> list_ex (\<lambda>kv. mock_has_bytes (snd kv)) kvs
      | Item m \<Rightarrow> mock_has_bytes m
      | Null \<Rightarrow> False)"

definition jsonify :: "payload \<Rightarrow> int \<Rightarrow> exn + answer" where
  "jsonify p code =
     (if (case p of
            Storage s d \<Rightarrow> data_has_bytes d
          | Configured q m \<Rightarrow> mock_has_bytes m
          | Params ps \<Rightarrow> list_ex (list_ex (\<lambda>kv. has_bytes (snd kv))) ps
          | _ \<Rightarrow> False)
      then Inl (PyError ''TypeError'')
      else Inr (Jsonify p code))"

subsection \<open>The handlers\<close>

text \<open>
  The handlers that answer with what the storage or the buffer of requests holds
  (\<open>get_storage\<close>, \<open>clear_storage\<close>, \<open>get_mock_params\<close>, \<open>clear_params\<close>) answer through
  \<open>jsonify\<close>, which may raise. The answers of the other handlers are written with the
  constructor \<open>Jsonify\<close>: their payloads are made of strings and flags, and the mock
  that the two registration handlers return is taken to hold no bytes by then
  (\<open>configure_binary_mock\<close> has turned the body into a string, and the payload of
  \<open>configure_mock\<close> was parsed from JSON).
\<close>

text \<open>\<^verbatim>\<open>Mock.__init__\<close>: the buffer starts as a copy of the placeholder. (The
  attribute \<^verbatim>\<open>params\<close> and the method \<^verbatim>\<open>reset\<close> of \<^verbatim>\<open>Mock\<close> are used by no
  handler and are not part of the state.)\<close>

definition init_state :: "'s collaborators \<Rightarrow> 's \<Rightarrow> 's state" where
  "init_state env r =
     \<lparr>params_storage = MOCK_PARAMS_STORAGE env, heap = [], registry = r, effects = []\<rparr>"

definition status :: "'s collaborators \<Rightarrow> 's state \<Rightarrow> (exn + answer) \<times> 's state" where
  "status env st = (Inr (Jsonify (Version True (version env)) 200), st)"

definition configure_mock ::
  "'s collaborators \<Rightarrow> request \<Rightarrow> 's state \<Rightarrow> (exn + answer) \<times> 's state" where
  "configure_mock env req st =
     (case (case req_json req of
              Inl e \<Rightarrow> Inl e
            | Inr input_data \<Rightarrow> model_validate env input_data) of
        Inl (ValidationError err) \<Rightarrow> (Inr (Jsonify (Invalid err) 400), st)
      | Inl (PyError e) \<Rightarrow> (Inl (PyError e), st)
      | Inr validate_data \<Rightarrow>
          (case create_response env validate_data st of
             (a, st1) \<Rightarrow>
               (case read_mock (heap st1) a of
                  None \<Rightarrow> (Inl (PyError ''TypeError''), st1)
                | Some mock \<Rightarrow>
                    (Inr (Jsonify (Configured (v_path validate_data) mock) 201), st1))))"

definition configure_binary_mock ::
  "'s collaborators \<Rightarrow> request \<Rightarrow> 's state \<Rightarrow> (exn + answer) \<times> 's state" where
  "configure_binary_mock env req st =
     (case pickle_loads env (req_data req) of
        Inl e \<Rightarrow> (Inl e, st)
      | Inr input_data \<Rightarrow>
          (case model_validate env input_data of
             Inl (ValidationError err) \<Rightarrow> (Inr (Jsonify (Invalid err) 400), st)
           | Inl (PyError e) \<Rightarrow> (Inl (PyError e), st)
           | Inr validate_data \<Rightarrow>
               (case create_response env validate_data st of
                  (a, st1) \<Rightarrow>
                    (case deepcopy (heap st1) a of
                       None \<Rightarrow> (Inl (PyError ''KeyError''), st1)
                     | Some (c, h2) \<Rightarrow>
                         (case read_mock h2 c of
                            None \<Rightarrow> (Inl (PyError ''KeyError''), st1\<lparr>heap := h2\<rparr>)
                          | Some copied \<Rightarrow>
                              (case set_body h2 c (Text (py_str (body (mock_data copied)))) of
                                 None \<Rightarrow> (Inl (PyError ''KeyError''), st1\<lparr>heap := h2\<rparr>)
                               | Some h3 \<Rightarrow>
                                   (case read_mock h3 c of
                                      None \<Rightarrow> (Inl (PyError ''TypeError''), st1\<lparr>heap := h3\<rparr>)
                                    | Some mock \<Rightarrow>
                                        (Inr (Jsonify (Configured (v_path validate_data) mock) 201),
                                         st1\<lparr>heap := h3\<rparr>))))))))"

definition catch_all ::
  "'s collaborators \<Rightarrow> request \<Rightarrow> request_data \<Rightarrow> 's state
     \<Rightarrow> (exn + answer) \<times> 's state" where
  "catch_all env req request_data st =
     (case find_response env st (req_path req) of
        None \<Rightarrow>
          (Inr (Jsonify (MockNotFound (req_path req)) 404),
           st\<lparr>params_storage := params_storage st @ [request_data]\<rparr>)
      | Some a \<Rightarrow>
          (case read_mock (heap st) a of
             None \<Rightarrow> (Inl (PyError ''KeyError''), st)
           | Some mock \<Rightarrow>
               (let request_data1 = AList.update ''extra_info'' (extra_info mock) request_data;
                    st1 = st\<lparr>params_storage := params_storage st @ [request_data1]\<rparr>
                in case truthy_str (proxy_host mock) of
                     Some host \<Rightarrow>
                       (let st2 = st1\<lparr>effects := effects st1 @ [Proxied host]\<rparr>
                        in case proxy_request_to_host env req host of
                             Inl e \<Rightarrow> (Inl e, st2)
                           | Inr proxy_response \<Rightarrow>
                               (Inr (Response (Bytes (content proxy_response))
                                       (pr_status_code proxy_response)
                                       (pr_headers proxy_response) None),
                                st2))
                   | None \<Rightarrow>
                       (case (case truthy_num (timeout mock) of
                                Some t \<Rightarrow> sleep t st1
                              | None \<Rightarrow> Inr st1) of
                          Inl e \<Rightarrow> (Inl e, st1)
                        | Inr st2 \<Rightarrow>
                            (case body (mock_data mock) of
                               NoBody \<Rightarrow>
                                 (Inr (Response NoBody (status_code (mock_data mock))
                                         (headers (mock_data mock)) None),
                                  st2)
                             | Bytes b \<Rightarrow>
                                 (Inr (Response (Bytes b) (status_code (mock_data mock))
                                         (headers (mock_data mock))
                                         (Some ''application/octet-stream'')),
                                  st2)
                             | Text s \<Rightarrow>
                                 (Inr (Tuple (Text s) (status_code (mock_data mock))
                                         (headers (mock_data mock))),
                                  st2))))))"

definition clear_params ::
  "'s collaborators \<Rightarrow> 's state \<Rightarrow> (exn + answer) \<times> 's state" where
  "clear_params env st =
     (jsonify (Params (MOCK_PARAMS_STORAGE env)) 200,
      st\<lparr>params_storage := MOCK_PARAMS_STORAGE env\<rparr>)"



definition get_mock_params ::
  "'s collaborators \<Rightarrow> 's state \<Rightarrow> (exn + answer) \<times> 's state" where
  "get_mock_params env st = (jsonify (Params (params_storage st)) 200, st)"

definition catch_unknown_path ::
  "'s collaborators \<Rightarrow> request_data \<Rightarrow> 's state \<Rightarrow> (exn + answer) \<times> 's state" where
  "catch_unknown_path env request_data st =
     (Inr (Jsonify NotFound 404), st\<lparr>params_storage := params_storage st @ [request_data]\<rparr>)"

subsection \<open>The registry of mocks\<close>

text \<open>
  The module \<^verbatim>\<open>proxy_mock.mock_service\<close> is not among the sources. Where a statement
  needs a registry that computes, it is the one below, written from the spec's sections
  4.1 (Registry) and 4.2 (Matcher): a dictionary from paths to the addresses of mock
  dictionaries, with at most one entry for a path. The handler reads the storage with
  \<^verbatim>\<open>data.get(path)\<close>, so the storage is a dictionary keyed by whole paths, and the
  spec's tree is the tree of their segments. The spec's normalisation of paths (given by
  example only) is not part of it.
\<close>

type_synonym registry = "(string \<times> nat) list"

text \<open>Modelled from the spec: \<^verbatim>\<open>mock_service.create_response\<close>, the spec's Register. It
  builds the entry from the validated payload, puts it at the payload's path in place of
  any entry already there, and returns the stored entry.\<close>

definition spec_create_response :: "validated \<Rightarrow> registry state \<Rightarrow> nat \<times> registry state" where
  "spec_create_response v st =
     (let inner = length (heap st); outer = Suc (length (heap st))
      in (outer,
          st\<lparr>heap := heap st @
                 [Inner \<lparr>body = v_body v, status_code = v_status_code v, headers = v_headers v\<rparr>,
                  Outer \<lparr>proxy_host = v_proxy_host v, timeout = v_timeout v, mock_data = inner,
                         extra_info = v_extra_info v\<rparr>],
             registry := AList.update (v_path v) outer (registry st)\<rparr>))"

text \<open>Modelled from the spec: \<^verbatim>\<open>mock_service.find_response\<close>, the spec's Matcher in
  dispatch mode. The result is the entry registered exactly at the path, if there is
  one; no parent and no pattern is tried.\<close>

definition spec_find_response :: "registry state \<Rightarrow> string \<Rightarrow> nat option" where
  "spec_find_response st p = map_of (registry st) p"

text \<open>The segments of a path: what stands between its slashes, empty pieces left out.\<close>

fun split_slash :: "string \<Rightarrow> string \<Rightarrow> string list" where
  "split_slash acc [] = (if acc = [] then [] else [acc])"
| "split_slash acc (c # cs) =
     (if c = CHR ''/'' then (if acc = [] then split_slash [] cs else acc # split_slash [] cs)
      else split_slash (acc @ [c]) cs)"

definition segments :: "string \<Rightarrow> string list" where
  "segments p = split_slash [] p"

text \<open>Modelled from the spec: \<^verbatim>\<open>mock_service.path_finder\<close>, the spec's Matcher in
  introspection mode. It follows the segments of the path, which may be partial, through
  the registered paths: the result is the key of the entry registered at the path itself
  if there is one, else the key of the first entry registered below it (an entry whose
  path begins with all the segments of the given one), else nothing. The handler looks the
  result up in the storage, so one entry stands for the subtree.\<close>

definition spec_path_finder :: "registry state \<Rightarrow> string \<Rightarrow> string option" where
  "spec_path_finder st p =
     (case map_of (registry st) p of
        Some a \<Rightarrow> Some p
      | None \<Rightarrow>
          List.find (\<lambda>k. take (length (segments p)) (segments k) = segments p)
            (map fst (registry st)))"

text \<open>Modelled from the spec: \<^verbatim>\<open>mock_service.delete_mock\<close>, the spec's Delete. It removes
  the entry at the path if there is one and returns whether it did.\<close>

definition spec_delete_mock :: "string \<Rightarrow> registry state \<Rightarrow> bool \<times> registry state" where
  "spec_delete_mock p st =
     (case map_of (registry st) p of
        None \<Rightarrow> (False, st)
      | Some a \<Rightarrow> (True, st\<lparr>registry := AList.delete p (registry st)\<rparr>))"

text \<open>Modelled from the spec: \<^verbatim>\<open>mock_service.cleanup_storage\<close>, the spec's Clear. It
  removes every entry and always succeeds.\<close>

definition spec_cleanup_storage :: "registry state \<Rightarrow> bool \<times> registry state" where
  "spec_cleanup_storage st = (True, st\<lparr>registry := []\<rparr>)"

text \<open>Modelled from the spec: \<^verbatim>\<open>mock_service.return_storage\<close>, the spec's Snapshot. It
  returns every entry as it is stored, under its path.\<close>

definition spec_return_storage :: "registry state \<Rightarrow> (string \<times> mock_body mock_dict) list" where
  "spec_return_storage st =
     List.map_filter (\<lambda>(p, a). map_option (Pair p) (read_mock (heap st) a)) (registry st)"

subsection \<open>A sample configuration\<close>

text \<open>
  The other collaborators are libraries (\<^verbatim>\<open>pickle\<close>, the schema validator, the HTTP
  client). To run the handlers on concrete requests they are given sample values: a
  decoder that knows two payloads and rejects every other byte string, a validator that
  asks for a dictionary with a textual \<^verbatim>\<open>path\<close>, and an upstream host that always
  answers.
\<close>

definition sample_pickle_loads :: "bytes \<Rightarrow> exn + pyval" where
  "sample_pickle_loads bs =
     (if bs = ''pickled-mock'' then Inr (PDict [(''path'', PStr ''/bin''), (''body'', PBytes ''ab'')])
      else if bs = ''pickled-empty'' then Inr (PDict [])
      else Inl (PyError ''UnpicklingError''))"

definition sample_model_validate :: "pyval \<Rightarrow> exn + validated" where
  "sample_model_validate x =
     (case x of
        PDict kvs \<Rightarrow>
          (case map_of kvs ''path'' of
             Some (PStr p) \<Rightarrow>
               Inr \<lparr>v_path = p,
                    v_proxy_host = (case map_of kvs ''proxy_host'' of Some (PStr h) \<Rightarrow> Some h | _ \<Rightarrow> None),
                    v_timeout = (case map_of kvs ''timeout'' of
                                   Some (PInt n) \<Rightarrow> Some (Finite (of_int n)) | _ \<Rightarrow> None),
                    v_body = (case map_of kvs ''body'' of
                                Some (PStr s) \<Rightarrow> Text s | Some (PBytes b) \<Rightarrow> Bytes b | _ \<Rightarrow> NoBody),
                    v_status_code = (case map_of kvs ''status_code'' of Some (PInt n) \<Rightarrow> n | _ \<Rightarrow> 200),
                    v_headers = [],
                    v_extra_info = (case map_of kvs ''extra_info'' of Some e \<Rightarrow> e | None \<Rightarrow> PNone)\<rparr>
           | _ \<Rightarrow> Inl (ValidationError ''path: Field required''))
      | _ \<Rightarrow> Inl (ValidationError ''Input should be a valid dictionary''))"

definition sample_proxy :: "request \<Rightarrow> string \<Rightarrow> exn + proxy_response" where
  "sample_proxy req host =
     Inr \<lparr>content = ''upstream'', pr_status_code = 203, pr_headers = [(''Via'', host)]\<rparr>"

definition sample_env :: "registry collaborators" where
  "sample_env =
     \<lparr>version = ''1.0.0'',
      MOCK_PARAMS_STORAGE = [],
      pickle_loads = sample_pickle_loads,
      model_validate = sample_model_validate,
      create_response = spec_create_response,
      find_response = spec_find_response,
      path_finder = spec_path_finder,
      delete_mock = spec_delete_mock,
      cleanup_storage = spec_cleanup_storage,
      return_storage = spec_return_storage,
      proxy_request_to_host = sample_proxy\<rparr>"

text \<open>A request for a path, with nothing else in it, and the same with a query argument
  \<^verbatim>\<open>path\<close>.\<close>

definition request_for :: "string \<Rightarrow> request" where
  "request_for p = \<lparr>req_path = p, req_args = [], req_data = [], req_json = Inr PNone\<rparr>"


definition request_with_data :: "string \<Rightarrow> bytes \<Rightarrow> request" where
  "request_with_data p d = \<lparr>req_path = p, req_args = [], req_data = d, req_json = Inr PNone\<rparr>"

text \<open>A sample mock, and the state in which it is the only one registered.\<close>

definition sample_mock ::
  "string \<Rightarrow> string option \<Rightarrow> pyfloat option \<Rightarrow> body \<Rightarrow> validated" where
  "sample_mock p host secs b =
     \<lparr>v_path = p, v_proxy_host = host, v_timeout = secs, v_body = b, v_status_code = 202,
      v_headers = [(''X-Mock'', ''yes'')], v_extra_info = PStr ''note''\<rparr>"

definition state_with :: "validated \<Rightarrow> registry state" where
  "state_with v = snd (spec_create_response v (init_state sample_env []))"

definition sample_request_data :: request_data where
  "sample_request_data = [(''method'', PStr ''GET'')]"

section \<open>Properties of the handlers\<close>

subsection \<open>Reading the heap\<close>







subsection \<open>The sample state\<close>

lemma state_with_simps:
  "params_storage (state_with v) = []"
  "effects (state_with v) = []"
  "registry (state_with v) = [(v_path v, 1)]"
  "heap (state_with v) =
     [Inner \<lparr>body = v_body v, status_code = v_status_code v, headers = v_headers v\<rparr>,
      Outer \<lparr>proxy_host = v_proxy_host v, timeout = v_timeout v, mock_data = 0,
             extra_info = v_extra_info v\<rparr>]"
  by (simp_all add: state_with_def spec_create_response_def init_state_def sample_env_def Let_def)

lemma read_state_with:
  "read_mock (heap (state_with v)) (Suc 0) =
     Some \<lparr>proxy_host = v_proxy_host v, timeout = v_timeout v,
           mock_data = \<lparr>body = v_body v, status_code = v_status_code v, headers = v_headers v\<rparr>,
           extra_info = v_extra_info v\<rparr>"
  by (simp add: state_with_simps read_mock_def lookup_def)

lemma find_state_with:
  "find_response sample_env (state_with v) p = (if p = v_path v then Some 1 else None)"
  by (simp add: sample_env_def spec_find_response_def state_with_simps)




lemma hit_sample:
  "find_response sample_env (state_with (sample_mock p h t b)) (req_path (request_for p)) = Some 1"
  by (simp add: find_state_with request_for_def sample_mock_def)

lemma read_sample:
  "read_mock (heap (state_with (sample_mock p h t b))) 1 =
     Some \<lparr>proxy_host = h, timeout = t,
           mock_data = \<lparr>body = b, status_code = 202, headers = [(''X-Mock'', ''yes'')]\<rparr>,
           extra_info = PStr ''note''\<rparr>"
  by (simp add: read_state_with sample_mock_def)


subsection \<open>Recording of requests\<close>

text \<open>
  C1. Every request that \<open>catch_all\<close> handles adds exactly one record to
  \<^verbatim>\<open>app.params_storage\<close>, at its end. When no mock is found the record is the dictionary
  of the request as the decorator made it: the handler puts no \<^verbatim>\<open>extra_info\<close> into it.
  When a mock is found (and is a mock dictionary) the record is that dictionary with
  \<^verbatim>\<open>extra_info\<close> set to the mock's. This holds whatever the handler goes on to return,
  an exception of the proxy call or of the sleep included.
\<close>

theorem catch_all_records_once:
  "(find_response env st (req_path req) = None \<longrightarrow>
      params_storage (snd (catch_all env req rd st)) = params_storage st @ [rd]) \<and>
   (\<forall>a m. find_response env st (req_path req) = Some a \<and> read_mock (heap st) a = Some m \<longrightarrow>
      params_storage (snd (catch_all env req rd st)) =
        params_storage st @ [AList.update ''extra_info'' (extra_info m) rd] \<and>
      map_of (AList.update ''extra_info'' (extra_info m) rd) ''extra_info'' = Some (extra_info m))"
  by (auto simp: catch_all_def Let_def sleep_def update_conv'
      split: option.splits sum.splits body.splits pyfloat.splits if_splits)

theorem catch_all_records_once_witness:
  "params_storage (snd (catch_all sample_env (request_for ''/a'') sample_request_data
       (state_with (sample_mock ''/a/b'' None None (Text ''hi''))))) = [sample_request_data] \<and>
   params_storage (snd (catch_all sample_env (request_for ''/a/b'') sample_request_data
       (state_with (sample_mock ''/a/b'' None None (Text ''hi''))))) =
     [[(''method'', PStr ''GET''), (''extra_info'', PStr ''note'')]]"
proof -
  let ?st = "state_with (sample_mock ''/a/b'' None None (Text ''hi''))"
  have miss: "find_response sample_env ?st (req_path (request_for ''/a'')) = None"
    by (simp add: find_state_with request_for_def sample_mock_def)
  have A: "params_storage (snd (catch_all sample_env (request_for ''/a'') sample_request_data ?st)) =
      [sample_request_data]"
    using catch_all_records_once [of sample_env ?st "request_for ''/a''" sample_request_data] miss
    by (simp add: state_with_simps)
  have B: "params_storage (snd (catch_all sample_env (request_for ''/a/b'') sample_request_data ?st)) =
      [AList.update ''extra_info'' (PStr ''note'') sample_request_data]"
    using catch_all_records_once [of sample_env ?st "request_for ''/a/b''" sample_request_data]
      hit_sample [of "''/a/b''" None None "Text ''hi''"]
      read_sample [of "''/a/b''" None None "Text ''hi''"]
    by (simp add: state_with_simps)
  from A B show ?thesis by (simp add: sample_request_data_def)
qed

subsection \<open>Dispatch\<close>

text \<open>
  C2. With a registry that matches exactly (\<open>spec_find_response\<close>), a request for a
  path at which no mock is registered gets the answer 404 with the error payload, and
  the request is recorded all the same. A path that is only the beginning of a
  registered path is such a path: the example after the theorem registers
  \<^verbatim>\<open>/a/b\<close> and asks for \<^verbatim>\<open>/a\<close>.
\<close>

theorem dispatch_exact_match_only:
  assumes "find_response env = spec_find_response"
    and "map_of (registry st) (req_path req) = None"
  shows "catch_all env req rd st =
    (Inr (Jsonify (MockNotFound (req_path req)) 404),
     st\<lparr>params_storage := params_storage st @ [rd]\<rparr>)"
  using assms by (simp add: catch_all_def spec_find_response_def)

theorem dispatch_exact_match_only_witness:
  "find_response sample_env (state_with (sample_mock ''/a/b'' None None (Text ''hi''))) ''/a/b'' = Some 1 \<and>
   catch_all sample_env (request_for ''/a'') sample_request_data
       (state_with (sample_mock ''/a/b'' None None (Text ''hi''))) =
     (Inr (Jsonify (MockNotFound ''/a'') 404),
      (state_with (sample_mock ''/a/b'' None None (Text ''hi'')))
        \<lparr>params_storage := [sample_request_data]\<rparr>)"
proof -
  let ?st = "state_with (sample_mock ''/a/b'' None None (Text ''hi''))"
  have env: "find_response sample_env = spec_find_response"
    by (simp add: sample_env_def)
  have miss: "map_of (registry ?st) (req_path (request_for ''/a'')) = None"
    by (simp add: state_with_simps request_for_def sample_mock_def)
  have hit: "find_response sample_env ?st ''/a/b'' = Some 1"
    by (simp add: find_state_with sample_mock_def)
  from dispatch_exact_match_only [OF env miss, of sample_request_data] hit
  show ?thesis by (simp add: request_for_def state_with_simps)
qed

text \<open>
  C3. When the mock found has a proxy host (a string that is not empty) and the proxy
  call returns, the answer is a \<^verbatim>\<open>Response\<close> made of the content, the status code and
  the headers that the call returned, and of nothing else. The mock's timeout and its own
  body, status code and headers play no part: nothing is assumed of them, and the only
  effect is the proxy call (no sleep).
\<close>

theorem proxy_takes_precedence:
  assumes "find_response env st (req_path req) = Some a"
    and "read_mock (heap st) a = Some m"
    and "proxy_host m = Some host" and "host \<noteq> []"
    and "proxy_request_to_host env req host = Inr pr"
  shows "catch_all env req rd st =
    (Inr (Response (Bytes (content pr)) (pr_status_code pr) (pr_headers pr) None),
     st\<lparr>params_storage := params_storage st @ [AList.update ''extra_info'' (extra_info m) rd],
        effects := effects st @ [Proxied host]\<rparr>)"
  using assms by (simp add: catch_all_def Let_def truthy_str_def)

theorem proxy_takes_precedence_witness:
  "catch_all sample_env (request_for ''/p'') sample_request_data
       (state_with (sample_mock ''/p'' (Some ''http://up'') (Some (Finite 5)) (Text ''local''))) =
     (Inr (Response (Bytes ''upstream'') 203 [(''Via'', ''http://up'')] None),
      (state_with (sample_mock ''/p'' (Some ''http://up'') (Some (Finite 5)) (Text ''local'')))
        \<lparr>params_storage := [[(''method'', PStr ''GET''), (''extra_info'', PStr ''note'')]],
         effects := [Proxied ''http://up'']\<rparr>)"
proof -
  let ?m = "\<lparr>proxy_host = Some ''http://up'', timeout = Some (Finite 5),
            mock_data = \<lparr>body = Text ''local'', status_code = 202, headers = [(''X-Mock'', ''yes'')]\<rparr>,
            extra_info = PStr ''note''\<rparr>"
  let ?pr = "\<lparr>content = ''upstream'', pr_status_code = 203, pr_headers = [(''Via'', ''http://up'')]\<rparr>"
  have host: "proxy_host ?m = Some ''http://up''" "''http://up'' \<noteq> []"
    by simp_all
  have up: "proxy_request_to_host sample_env (request_for ''/p'') ''http://up'' = Inr ?pr"
    by (simp add: sample_env_def sample_proxy_def)
  from proxy_takes_precedence [OF hit_sample read_sample host up, of sample_request_data]
  show ?thesis by (simp add: state_with_simps sample_request_data_def)
qed







subsection \<open>Introspection and cleanup of the storage\<close>







subsection \<open>Registration through the binary endpoint\<close>



text \<open>
  C10. In \<open>configure_binary_mock\<close> an exception of \<^verbatim>\<open>pickle.loads\<close> leaves the handler
  as it is, with the state untouched: the call stands before the \<^verbatim>\<open>try\<close>. A
  \<^verbatim>\<open>ValidationError\<close> of the schema, raised once the payload is unpickled, becomes the
  answer 400 with the error payload, the state untouched as well. And the handler answers
  400 in that case only.
\<close>

theorem unpickling_error_propagates:
  "(\<forall>e. pickle_loads env (req_data req) = Inl e \<longrightarrow>
        configure_binary_mock env req st = (Inl e, st)) \<and>
   (\<forall>x err. pickle_loads env (req_data req) = Inr x \<and>
        model_validate env x = Inl (ValidationError err) \<longrightarrow>
        configure_binary_mock env req st = (Inr (Jsonify (Invalid err) 400), st)) \<and>
   (\<forall>p. fst (configure_binary_mock env req st) = Inr (Jsonify p 400) \<longrightarrow>
        (\<exists>x err. pickle_loads env (req_data req) = Inr x \<and>
                  model_validate env x = Inl (ValidationError err) \<and> p = Invalid err))"
  by (auto simp: configure_binary_mock_def
      split: sum.splits exn.splits prod.splits option.splits)

theorem unpickling_error_propagates_witness:
  "configure_binary_mock sample_env (request_with_data ''/configure_mock/binary'' ''garbage'')
       (init_state sample_env []) =
     (Inl (PyError ''UnpicklingError''), init_state sample_env []) \<and>
   configure_binary_mock sample_env (request_with_data ''/configure_mock/binary'' ''pickled-empty'')
       (init_state sample_env []) =
     (Inr (Jsonify (Invalid ''path: Field required'') 400), init_state sample_env [])"
proof -
  let ?st = "init_state sample_env [] :: registry state"
  have bad: "pickle_loads sample_env (req_data (request_with_data ''/configure_mock/binary'' ''garbage''))
      = Inl (PyError ''UnpicklingError'')"
    by (simp add: sample_env_def sample_pickle_loads_def request_with_data_def)
  have good: "pickle_loads sample_env
      (req_data (request_with_data ''/configure_mock/binary'' ''pickled-empty'')) = Inr (PDict [])"
    by (simp add: sample_env_def sample_pickle_loads_def request_with_data_def)
  have invalid: "model_validate sample_env (PDict []) = Inl (ValidationError ''path: Field required'')"
    by (simp add: sample_env_def sample_model_validate_def)
  have A: "configure_binary_mock sample_env
      (request_with_data ''/configure_mock/binary'' ''garbage'') ?st =
      (Inl (PyError ''UnpicklingError''), ?st)"
    using unpickling_error_propagates
      [of sample_env "request_with_data ''/configure_mock/binary'' ''garbage''" ?st] bad
    by blast
  have B: "configure_binary_mock sample_env
      (request_with_data ''/configure_mock/binary'' ''pickled-empty'') ?st =
      (Inr (Jsonify (Invalid ''path: Field required'') 400), ?st)"
    using unpickling_error_propagates
      [of sample_env "request_with_data ''/configure_mock/binary'' ''pickled-empty''" ?st]
      good invalid
    by blast
  from A B show ?thesis by simp
qed

end
